theory Spec2Isabelle
  imports Main "HOL-Library.Word"
begin

section \<open>Common data\<close>

text \<open>
  Python byte strings are lists of 8-bit words; Python text (unicode) is a list of code
  points. Command names, JSON field names and status messages are ASCII and are kept
  as HOL strings.
\<close>

type_synonym byte = "8 word"

type_synonym unicode = "nat list"

datatype py_error =
    KeyError
  | IndexError
  | TypeError
  | ValueError
  | UnicodeEncodeError
  | OSError nat

text \<open>
  \<open>data.encode('utf-8')\<close> with the strict error handler: one to four bytes per code
  point, \<open>UnicodeEncodeError\<close> on a lone surrogate. A value from \<open>0x110000\<close> on is not a
  code point and has no encoding either.
\<close>

definition utf8_char :: "nat \<Rightarrow> byte list option" where
  "utf8_char n =
     (if n < 0x80 then Some [of_nat n]
      else if n < 0x800 then Some [of_nat (0xC0 + n div 64), of_nat (0x80 + n mod 64)]
      else if n < 0x10000 then
        (if 0xD800 \<le> n \<and> n < 0xE000 then None
         else Some [of_nat (0xE0 + n div 4096), of_nat (0x80 + (n div 64) mod 64),
                    of_nat (0x80 + n mod 64)])
      else if n < 0x110000 then
        Some [of_nat (0xF0 + n div 262144), of_nat (0x80 + (n div 4096) mod 64),
              of_nat (0x80 + (n div 64) mod 64), of_nat (0x80 + n mod 64)]
      else None)"

fun encode_utf8 :: "unicode \<Rightarrow> byte list option" where
  "encode_utf8 [] = Some []"
| "encode_utf8 (c # cs) =
     (case utf8_char c of
        None \<Rightarrow> None
      | Some b \<Rightarrow> (case encode_utf8 cs of None \<Rightarrow> None | Some bs \<Rightarrow> Some (b @ bs)))"

text \<open>\<open>six.unichr\<close>: the character of a code point, \<open>ValueError\<close> outside the range.\<close>

definition unichr :: "int \<Rightarrow> py_error + nat" where
  "unichr i = (if 0 \<le> i \<and> i < 0x110000 then Inr (nat i) else Inl ValueError)"

text \<open>\<open>'%s' % i\<close> for an integer: its decimal digits, with a minus sign when negative.\<close>

function str_nat :: "nat \<Rightarrow> unicode" where
  "str_nat n = (if n < 10 then [48 + n] else str_nat (n div 10) @ [48 + n mod 10])"
  by pat_completeness auto
termination
  by (relation "measure (\<lambda>n. n)") auto

definition str_int :: "int \<Rightarrow> unicode" where
  "str_int i = (if i < 0 then 45 # str_nat (nat (- i)) else str_nat (nat i))"

section \<open>client.py: the receive loop and the packet handler\<close>

subsection \<open>Framing\<close>

text \<open>\<open>_send_packet\<close>: the encoded JSON text followed by one NUL byte.\<close>

definition send_packet :: "byte list \<Rightarrow> byte list" where
  "send_packet body = body @ [0]"

text \<open>\<open>data_buffer.index(b'\0')\<close>, used only when the buffer holds a NUL.\<close>

definition index_nul :: "byte list \<Rightarrow> nat" where
  "index_nul data_buffer = length (takeWhile (\<lambda>b. b \<noteq> 0) data_buffer)"

text \<open>
  The inner loop of \<open>attach\<close>: while the buffer holds a NUL, hand the bytes before it
  to the packet handler and keep the bytes after it. An exception of the handler
  leaves the loop.
\<close>

function drain ::
  "('c \<Rightarrow> byte list \<Rightarrow> 'e + 'c) \<Rightarrow> 'c \<Rightarrow> byte list \<Rightarrow> 'e + 'c \<times> byte list" where
  "drain handler c data_buffer =
     (if 0 \<in> set data_buffer then
        (let pos = index_nul data_buffer in
         case handler c (take pos data_buffer) of
           Inl e \<Rightarrow> Inl e
         | Inr c' \<Rightarrow> drain handler c' (drop (pos + 1) data_buffer))
      else Inr (c, data_buffer))"
  by pat_completeness auto
termination
proof (relation "measure (\<lambda>(handler, c, data_buffer). length data_buffer)")
  fix handler :: "'c \<Rightarrow> byte list \<Rightarrow> 'e + 'c" and c c' :: 'c
    and data_buffer :: "byte list" and pos
  assume "0 \<in> set data_buffer"
  then have "data_buffer \<noteq> []" by auto
  then show "((handler, c', drop (pos + 1) data_buffer), (handler, c, data_buffer))
             \<in> measure (\<lambda>(handler, c, data_buffer). length data_buffer)"
    by (cases data_buffer) auto
qed simp

declare drain.simps [simp del]

text \<open>
  The outer loop of \<open>attach\<close>, on the socket side. The list holds what successive
  \<open>recv(1024)\<close> calls return. An empty read is the end of the connection: the loop
  returns. When the list is exhausted the loop is waiting in \<open>select\<close> with the bytes
  of an unfinished packet still in its buffer.
\<close>

datatype 'c attach_result = Detached 'c | Waiting 'c "byte list"

fun recv_loop ::
  "('c \<Rightarrow> byte list \<Rightarrow> 'e + 'c) \<Rightarrow> 'c \<Rightarrow> byte list \<Rightarrow> byte list list \<Rightarrow> 'e + 'c attach_result"
  where
  "recv_loop handler c data_buffer [] = Inr (Waiting c data_buffer)"
| "recv_loop handler c data_buffer (d # ds) =
     (if d = [] then Inr (Detached c)
      else case drain handler c (data_buffer @ d) of
             Inl e \<Rightarrow> Inl e
           | Inr (c', data_buffer') \<Rightarrow> recv_loop handler c' data_buffer' ds)"

text \<open>The reference behaviour: the handler applied to each packet in order.\<close>

fun deliver :: "('c \<Rightarrow> 'p \<Rightarrow> 'e + 'c) \<Rightarrow> 'c \<Rightarrow> 'p list \<Rightarrow> 'e + 'c" where
  "deliver handler c [] = Inr c"
| "deliver handler c (p # ps) =
     (case handler c p of Inl e \<Rightarrow> Inl e | Inr c' \<Rightarrow> deliver handler c' ps)"

subsection \<open>The packet handler\<close>

text \<open>
  \<open>raw_mode\<close> and \<open>cooked_mode\<close> are context managers of the terminal library: one
  records the terminal attributes when it is created, entering it switches the terminal
  to its mode, and leaving it puts the recorded attributes back.
\<close>

datatype tty_mode = Raw | Cooked

record context_manager =
  cm_mode :: tty_mode
  attrs_before :: tty_mode

definition cm_enter :: "tty_mode \<Rightarrow> tty_mode \<Rightarrow> context_manager \<times> tty_mode" where
  "cm_enter m tty_now = (\<lparr>cm_mode = m, attrs_before = tty_now\<rparr>, m)"

definition cm_exit :: "context_manager \<Rightarrow> tty_mode" where
  "cm_exit cm = attrs_before cm"

text \<open>
  The client: its stack of entered context managers, the mode of its terminal, what it
  wrote to its standard output, and how often it sent itself \<open>SIGTSTP\<close>.
\<close>

record Client =
  mode_context_managers :: "context_manager list"
  tty :: tty_mode
  stdout :: "string list"
  sigtstp_sent :: nat

datatype json = JString string | JOther

type_synonym packet = "string \<rightharpoonup> json"

definition subscript :: "packet \<Rightarrow> string \<Rightarrow> py_error + json" where
  "subscript packet k = (case packet k of None \<Rightarrow> Inl KeyError | Some v \<Rightarrow> Inr v)"

text \<open>The \<open>mode\<close> branch of \<open>_process\<close>.\<close>

definition process_mode :: "Client \<Rightarrow> json \<Rightarrow> Client" where
  "process_mode c action =
     (if action = JString ''raw'' then
        (let (cm, t) = cm_enter Raw (tty c)
         in c\<lparr>mode_context_managers := mode_context_managers c @ [cm], tty := t\<rparr>)
      else if action = JString ''cooked'' then
        (let (cm, t) = cm_enter Cooked (tty c)
         in c\<lparr>mode_context_managers := mode_context_managers c @ [cm], tty := t\<rparr>)
      else if action = JString ''restore'' \<and> mode_context_managers c \<noteq> [] then
        (let cm = last (mode_context_managers c)
         in c\<lparr>mode_context_managers := butlast (mode_context_managers c), tty := cm_exit cm\<rparr>)
      else c)"

text \<open>\<open>_process\<close>, on the decoded packet.\<close>

definition process_packet :: "Client \<Rightarrow> packet \<Rightarrow> py_error + Client" where
  "process_packet c packet =
     (case subscript packet ''cmd'' of
        Inl e \<Rightarrow> Inl e
      | Inr cmd \<Rightarrow>
          if cmd = JString ''out'' then
            (case subscript packet ''data'' of
               Inl e \<Rightarrow> Inl e
             | Inr (JString s) \<Rightarrow> Inr (c\<lparr>stdout := stdout c @ [s]\<rparr>)
             | Inr JOther \<Rightarrow> Inl TypeError)
          else if cmd = JString ''suspend'' then
            Inr (c\<lparr>sigtstp_sent := sigtstp_sent c + 1\<rparr>)
          else if cmd = JString ''mode'' then
            (case subscript packet ''data'' of
               Inl e \<Rightarrow> Inl e
             | Inr action \<Rightarrow> Inr (process_mode c action))
          else Inr c)"

text \<open>
  \<open>_process\<close>, on the bytes of one packet. \<open>loads\<close> stands for
  \<open>json.loads(data_buffer.decode('utf-8'))\<close>: it raises \<open>ValueError\<close> on bytes that
  are not the encoding of a JSON text, and gives an object or a JSON value of another
  kind (a list, a number, a string, ...), whose subscript with \<open>'cmd'\<close> is a
  \<open>TypeError\<close>.
\<close>

datatype loaded = Object packet | NotObject

definition process :: "(byte list \<Rightarrow> loaded option) \<Rightarrow> Client \<Rightarrow> byte list \<Rightarrow> py_error + Client"
  where
  "process loads c data_buffer =
     (case loads data_buffer of
        None \<Rightarrow> Inl ValueError
      | Some NotObject \<Rightarrow> Inl TypeError
      | Some (Object packet) \<Rightarrow> process_packet c packet)"

text \<open>The packet the server sends to change the terminal mode of the client.\<close>

definition mode_packet :: "string \<Rightarrow> packet" where
  "mode_packet action = [''cmd'' \<mapsto> JString ''mode'', ''data'' \<mapsto> JString action]"

section \<open>process.py: the pane's process\<close>

text \<open>
  The part of the emulated screen that the process and the mouse handler read: the
  mode flags the child program switched on.
\<close>

record Screen =
  bracketed_paste_enabled :: bool
  sgr_mouse_support_enabled :: bool
  urxvt_mouse_support_enabled :: bool
  mouse_support_enabled :: bool

text \<open>
  The fields of \<open>Process\<close> that the operations below use. \<open>master\<close> is the descriptor
  of the pty master or \<open>None\<close>, \<open>pid\<close> is \<open>None\<close> until the child was forked.
\<close>

record Process =
  master :: "int option"
  pid :: "int option"
  is_terminated :: bool
  screen :: Screen

text \<open>What an operation did to the operating system and to the event loop, in order.\<close>

datatype os_call =
    OsWrite int "byte list"
  | OsKill int int
  | OsClose int
  | RemoveReader int

text \<open>
  The outcome of one \<open>os.write\<close>: the number of bytes taken, or \<open>OSError\<close> with its
  errno. The environment is the outcome of the first, second, ... call.
\<close>

datatype write_outcome = Written nat | WriteError nat

type_synonym write_env = "nat \<Rightarrow> write_outcome"

text \<open>The result of an operation: the calls it made, and the exception that left it.\<close>

type_synonym io_result = "os_call list \<times> py_error option"

definition paste_start :: unicode where
  "paste_start = [0x1b, 0x5b, 0x32, 0x30, 0x30, 0x7e]"

definition paste_end :: unicode where
  "paste_end = [0x1b, 0x5b, 0x32, 0x30, 0x31, 0x7e]"

text \<open>
  The loop of \<open>write_input\<close>. \<open>i\<close> counts the \<open>os.write\<close> calls made so far and
  \<open>acc\<close> lists them. An \<open>OSError\<close> with errno 4 starts the loop again, any other
  \<open>OSError\<close> is dropped, and the loop never ends while every call is interrupted:
  then the value is \<open>None\<close>.
\<close>

partial_function (option) write_loop ::
  "Process \<Rightarrow> unicode \<Rightarrow> write_env \<Rightarrow> nat \<Rightarrow> os_call list \<Rightarrow> io_result option" where
  "write_loop p data env i acc =
     (case master p of
        None \<Rightarrow> Some (acc, None)
      | Some fd \<Rightarrow>
          (case encode_utf8 data of
             None \<Rightarrow> Some (acc, Some UnicodeEncodeError)
           | Some bs \<Rightarrow>
               (case env i of
                  Written n \<Rightarrow> Some (acc @ [OsWrite fd bs], None)
                | WriteError errno \<Rightarrow>
                    if errno = 4 then write_loop p data env (i + 1) (acc @ [OsWrite fd bs])
                    else Some (acc @ [OsWrite fd bs], None))))"

definition write_input :: "Process \<Rightarrow> unicode \<Rightarrow> bool \<Rightarrow> write_env \<Rightarrow> io_result option" where
  "write_input p data paste env =
     (let data' = (if paste \<and> bracketed_paste_enabled (screen p)
                   then paste_start @ data @ paste_end else data)
      in write_loop p data' env 0 [])"

text \<open>
  \<open>done\<close>, the callback of \<open>_waitpid\<close> that runs in the main thread once the child was
  reaped: it closes the pty master, clears the field and marks the process as
  terminated. \<open>os.close(None)\<close> is a \<open>TypeError\<close>.
\<close>

definition waitpid_done :: "Process \<Rightarrow> Process \<times> io_result" where
  "waitpid_done p =
     (case master p of
        None \<Rightarrow> (p, ([], Some TypeError))
      | Some fd \<Rightarrow>
          (p\<lparr>master := None, is_terminated := True\<rparr>, ([OsClose fd, RemoveReader fd], None)))"

text \<open>
  \<open>send_signal\<close>. \<open>self.pid\<close> is false when it is \<open>None\<close> or 0. \<open>kill_error\<close> is the
  errno \<open>os.kill\<close> fails with, if it fails.
\<close>

definition send_signal :: "Process \<Rightarrow> int \<Rightarrow> nat option \<Rightarrow> io_result" where
  "send_signal p signal kill_error =
     (case pid p of
        None \<Rightarrow> ([], None)
      | Some child \<Rightarrow>
          if child \<noteq> 0 \<and> \<not> is_terminated p then
            ([OsKill child signal],
             (case kill_error of None \<Rightarrow> None | Some errno \<Rightarrow> Some (OSError errno)))
          else ([], None))"

text \<open>Whom \<open>kill(pid, sig)\<close> signals, by the sign of its first argument (POSIX).\<close>

datatype signal_target =
    TargetProcess int
  | TargetProcessGroup int
  | TargetCallerGroup
  | TargetAllProcesses

definition kill_target :: "int \<Rightarrow> signal_target" where
  "kill_target p =
     (if p > 0 then TargetProcess p
      else if p = 0 then TargetCallerGroup
      else if p = - 1 then TargetAllProcesses
      else TargetProcessGroup (- p))"

fun signal_targets :: "os_call list \<Rightarrow> signal_target list" where
  "signal_targets [] = []"
| "signal_targets (OsKill p s # cs) = kill_target p # signal_targets cs"
| "signal_targets (c # cs) = signal_targets cs"

subsection \<open>The child after the fork\<close>

text \<open>What the file system answers about a path, and whether \<open>execv\<close> on it succeeds.\<close>

record file_info =
  path_exists :: bool
  access_x_ok :: bool
  execv_errno :: "nat option"

type_synonym filesystem = "string \<Rightarrow> file_info"

text \<open>\<open>s.split(':')\<close>: the pieces between the colons, one piece for a string without.\<close>

fun split_colon :: "string \<Rightarrow> string list" where
  "split_colon [] = [[]]"
| "split_colon (ch # s) =
     (if ch = CHR '':'' then [] # split_colon s
      else (case split_colon s of
              [] \<Rightarrow> [[ch]]
            | piece # pieces \<Rightarrow> (ch # piece) # pieces))"

text \<open>\<open>os.path.join(a, b)\<close> on POSIX.\<close>

definition path_join :: "string \<Rightarrow> string \<Rightarrow> string" where
  "path_join a b =
     (if b \<noteq> [] \<and> hd b = CHR ''/'' then b
      else if a = [] \<or> last a = CHR ''/'' then a @ b
      else a @ ''/'' @ b)"

text \<open>
  How a function that runs in the child ends: it returns, it raises, or \<open>execv\<close>
  replaced the process image and nothing after it runs.
\<close>

datatype exec_result = Returned | Raised py_error | Replaced string "string list"

text \<open>The loop of \<open>execv\<close> over the entries of \<open>PATH\<close>.\<close>

fun execv_search :: "filesystem \<Rightarrow> string list \<Rightarrow> string list \<Rightarrow> exec_result" where
  "execv_search fs command [] = Returned"
| "execv_search fs command (p # ps) =
     (case command of
        [] \<Rightarrow> Raised IndexError
      | c0 # args \<Rightarrow>
          (let path = path_join p c0 in
           if path_exists (fs path) \<and> access_x_ok (fs path) then
             (case execv_errno (fs path) of
                None \<Rightarrow> Replaced path command
              | Some errno \<Rightarrow> Raised (OSError errno))
           else execv_search fs command ps))"

text \<open>
  The closure \<open>execv\<close> that \<open>from_command\<close> builds. \<open>before_exec_func\<close> is \<open>None\<close>
  when none was given, else how the given function ends.
\<close>

definition execv ::
  "py_error option option \<Rightarrow> (string \<rightharpoonup> string) \<Rightarrow> filesystem \<Rightarrow> string list \<Rightarrow> exec_result"
  where
  "execv before_exec_func environ fs command =
     (case before_exec_func of
        Some (Some e) \<Rightarrow> Raised e
      | _ \<Rightarrow>
          (case environ ''PATH'' of
             None \<Rightarrow> Raised KeyError
           | Some path_var \<Rightarrow> execv_search fs command (split_colon path_var)))"

text \<open>
  The end of \<open>_in_child\<close>, from its \<open>try\<close> on: an exception of \<open>exec_func\<close> ends the
  child with status 1, its return with status 0.
\<close>

datatype child_end = Exited int | Runs string "string list"

definition in_child :: "exec_result \<Rightarrow> child_end" where
  "in_child exec_func =
     (case exec_func of
        Replaced path argv \<Rightarrow> Runs path argv
      | Raised e \<Rightarrow> Exited 1
      | Returned \<Rightarrow> Exited 0)"

section \<open>layout.py: mouse events and focus by direction\<close>

text \<open>
  A window of the arrangement, as the layout reads it: the tree of splits with the
  panes at its leaves, the active pane and the zoom flag.
\<close>

datatype 'p split = Pane 'p | HSplit "'p split list" | VSplit "'p split list"

fun panes_of :: "'p split \<Rightarrow> 'p list" where
  "panes_of (Pane p) = [p]"
| "panes_of (HSplit items) = concat (map panes_of items)"
| "panes_of (VSplit items) = concat (map panes_of items)"

record 'p Window =
  root :: "'p split"
  active_pane :: 'p
  zoom :: bool

subsection \<open>The mouse handler of a pane\<close>

datatype mouse_event_type = MOUSE_DOWN | MOUSE_UP | SCROLL_UP | SCROLL_DOWN

record mouse_event =
  position_x :: int
  position_y :: int
  event_type :: mouse_event_type

definition has_focus :: "string \<Rightarrow> 'p Window \<Rightarrow> 'p \<Rightarrow> bool" where
  "has_focus current_buffer_name w pane =
     (current_buffer_name \<noteq> ''COMMAND'' \<and> active_pane w = pane)"

text \<open>The event tables of the three protocols.\<close>

fun sgr_event :: "mouse_event_type \<Rightarrow> unicode \<times> unicode" where
  "sgr_event MOUSE_DOWN = ([0x30], [0x4d])"
| "sgr_event MOUSE_UP = ([0x30], [0x6d])"
| "sgr_event SCROLL_UP = ([0x36, 0x34], [0x4d])"
| "sgr_event SCROLL_DOWN = ([0x36, 0x35], [0x4d])"

fun legacy_event :: "mouse_event_type \<Rightarrow> int" where
  "legacy_event MOUSE_DOWN = 32"
| "legacy_event MOUSE_UP = 35"
| "legacy_event SCROLL_UP = 96"
| "legacy_event SCROLL_DOWN = 97"

text \<open>\<open>'\x1b[<%s;%s;%s%s' % (ev, x + 1, y + 1, m)\<close>\<close>

definition sgr_report :: "mouse_event_type \<Rightarrow> int \<Rightarrow> int \<Rightarrow> unicode" where
  "sgr_report t x y =
     (let (ev, m) = sgr_event t
      in [0x1b, 0x5b, 0x3c] @ ev @ [0x3b] @ str_int (x + 1) @ [0x3b] @ str_int (y + 1) @ m)"

text \<open>\<open>'\x1b[%s;%s;%sM' % (ev, x + 1, y + 1)\<close>\<close>

definition urxvt_report :: "mouse_event_type \<Rightarrow> int \<Rightarrow> int \<Rightarrow> unicode" where
  "urxvt_report t x y =
     [0x1b, 0x5b] @ str_int (legacy_event t) @ [0x3b] @ str_int (x + 1) @ [0x3b]
       @ str_int (y + 1) @ [0x4d]"

text \<open>\<open>'\x1b[M%s%s%s' % (six.unichr(ev), six.unichr(x + 33), six.unichr(y + 33))\<close>\<close>

definition legacy_report :: "mouse_event_type \<Rightarrow> int \<Rightarrow> int \<Rightarrow> py_error + unicode" where
  "legacy_report t x y =
     (case unichr (legacy_event t) of
        Inl e \<Rightarrow> Inl e
      | Inr ev \<Rightarrow>
          (case unichr (x + 33) of
             Inl e \<Rightarrow> Inl e
           | Inr cx \<Rightarrow>
               (case unichr (y + 33) of
                  Inl e \<Rightarrow> Inl e
                | Inr cy \<Rightarrow> Inr [0x1b, 0x5b, 0x4d, ev, cx, cy])))"

text \<open>
  \<open>PaneContainer.mouse_handler\<close>: a pane without the focus takes it; a pane with the
  focus reports the event to its process in the protocol the process asked for.
\<close>

definition mouse_handler ::
  "string \<Rightarrow> 'p Window \<Rightarrow> 'p \<Rightarrow> Process \<Rightarrow> mouse_event \<Rightarrow> write_env
   \<Rightarrow> 'p Window \<times> io_result option" where
  "mouse_handler current_buffer_name w pane proc mouse_event env =
     (let x = position_x mouse_event; y = position_y mouse_event in
      if \<not> has_focus current_buffer_name w pane then
        (w\<lparr>active_pane := pane\<rparr>, Some ([], None))
      else if sgr_mouse_support_enabled (screen proc) then
        (w, write_input proc (sgr_report (event_type mouse_event) x y) False env)
      else if urxvt_mouse_support_enabled (screen proc) then
        (w, write_input proc (urxvt_report (event_type mouse_event) x y) False env)
      else if mouse_support_enabled (screen proc) then
        (if x < 96 \<and> y < 96 then
           (case legacy_report (event_type mouse_event) x y of
              Inl e \<Rightarrow> (w, Some ([], Some e))
            | Inr report \<Rightarrow> (w, write_input proc report False env))
         else (w, Some ([], None)))
      else (w, Some ([], None)))"

subsection \<open>Focus by direction\<close>

record write_position =
  xpos :: int
  ypos :: int
  width :: int
  height :: int

text \<open>
  \<open>pane_write_positions\<close>: what the last rendering recorded, a dictionary from panes
  to write positions, in the order in which the dictionary is iterated.
\<close>

type_synonym 'p pane_write_positions = "('p \<times> write_position) list"

definition contains_point :: "write_position \<Rightarrow> int \<Rightarrow> int \<Rightarrow> bool" where
  "contains_point wp x y =
     (xpos wp \<le> x \<and> x < xpos wp + width wp \<and> ypos wp \<le> y \<and> y < ypos wp + height wp)"

text \<open>The loop of \<open>_move_focus\<close>: the first pane whose box holds the point wins.\<close>

fun look_for_pane :: "'p pane_write_positions \<Rightarrow> int \<Rightarrow> int \<Rightarrow> 'p Window \<Rightarrow> 'p Window" where
  "look_for_pane [] x y w = w"
| "look_for_pane ((pane, wp) # rest) x y w =
     (if contains_point wp x y then w\<lparr>active_pane := pane\<rparr>
      else look_for_pane rest x y w)"

text \<open>\<open>_move_focus\<close>: the subscript raises \<open>KeyError\<close> for a pane without an entry.\<close>

definition move_focus ::
  "'p pane_write_positions \<Rightarrow> 'p Window \<Rightarrow> (write_position \<Rightarrow> int) \<Rightarrow> (write_position \<Rightarrow> int)
   \<Rightarrow> py_error + 'p Window" where
  "move_focus positions w get_x get_y =
     (case map_of positions (active_pane w) of
        None \<Rightarrow> Inl KeyError
      | Some write_pos \<Rightarrow> Inr (look_for_pane positions (get_x write_pos) (get_y write_pos) w))"

definition focus_left :: "'p pane_write_positions \<Rightarrow> 'p Window \<Rightarrow> py_error + 'p Window" where
  "focus_left positions w = move_focus positions w (\<lambda>wp. xpos wp - 2) (\<lambda>wp. ypos wp)"

definition focus_right :: "'p pane_write_positions \<Rightarrow> 'p Window \<Rightarrow> py_error + 'p Window" where
  "focus_right positions w =
     move_focus positions w (\<lambda>wp. xpos wp + width wp + 1) (\<lambda>wp. ypos wp)"

definition focus_down :: "'p pane_write_positions \<Rightarrow> 'p Window \<Rightarrow> py_error + 'p Window" where
  "focus_down positions w =
     move_focus positions w (\<lambda>wp. xpos wp) (\<lambda>wp. ypos wp + height wp + 1)"

definition focus_up :: "'p pane_write_positions \<Rightarrow> 'p Window \<Rightarrow> py_error + 'p Window" where
  "focus_up positions w = move_focus positions w (\<lambda>wp. xpos wp) (\<lambda>wp. ypos wp - 1)"

text \<open>The four directions, and the probe point each of them computes.\<close>

datatype direction = L | R | U | D

fun focus :: "direction \<Rightarrow> 'p pane_write_positions \<Rightarrow> 'p Window \<Rightarrow> py_error + 'p Window" where
  "focus L = focus_left"
| "focus R = focus_right"
| "focus U = focus_up"
| "focus D = focus_down"

fun probe :: "direction \<Rightarrow> write_position \<Rightarrow> int \<times> int" where
  "probe L wp = (xpos wp - 2, ypos wp)"
| "probe R wp = (xpos wp + width wp + 1, ypos wp)"
| "probe U wp = (xpos wp, ypos wp - 1)"
| "probe D wp = (xpos wp, ypos wp + height wp + 1)"

section \<open>commands.py: the command dispatcher\<close>

text \<open>
  The state a command handler works on: the arrangement, and the messages shown to the
  user so far.
\<close>

record 'a Pymux =
  arrangement :: 'a
  messages :: "string list"

text \<open>
  Modelled from the spec: \<open>show_message\<close> of the session object, which is not among the
  sources, surfaces a text as a transient status message.
\<close>

definition show_message :: "'a Pymux \<Rightarrow> string \<Rightarrow> 'a Pymux" where
  "show_message pymux message = pymux\<lparr>messages := messages pymux @ [message]\<rparr>"

datatype exn = CommandException string | Error py_error

type_synonym 'a handler = "'a Pymux \<Rightarrow> string list \<Rightarrow> exn + 'a Pymux"

type_synonym variables = "string \<rightharpoonup> string"

text \<open>
  What \<open>docopt.docopt\<close> makes of a usage pattern and a list of parameters: the
  variables, or \<open>None\<close> where it ends with \<open>SystemExit\<close>.
\<close>

type_synonym docopt = "string \<Rightarrow> string list \<Rightarrow> variables option"

definition call_command_handler ::
  "(string \<rightharpoonup> 'a handler) \<Rightarrow> string \<Rightarrow> 'a Pymux \<Rightarrow> string list \<Rightarrow> exn + 'a Pymux" where
  "call_command_handler commands_to_handlers command pymux parameters =
     (case commands_to_handlers command of
        None \<Rightarrow> Inr (show_message pymux (''Invalid command: '' @ command))
      | Some handler \<Rightarrow>
          (case handler pymux parameters of
             Inl (CommandException message) \<Rightarrow> Inr (show_message pymux message)
           | Inl (Error e) \<Rightarrow> Inl (Error e)
           | Inr pymux' \<Rightarrow> Inr pymux'))"

text \<open>The wrapper that the decorator \<open>cmd\<close> registers for a handler function.\<close>

definition command_wrapper ::
  "docopt \<Rightarrow> string \<Rightarrow> string \<Rightarrow> ('a Pymux \<Rightarrow> variables \<Rightarrow> exn + 'a Pymux) \<Rightarrow> 'a handler" where
  "command_wrapper docopt name options func pymux parameters =
     (case docopt (''Usage:'' @ [CHR 0x0A] @ ''    '' @ name @ '' '' @ options) parameters of
        None \<Rightarrow> Inl (CommandException (''Usage: '' @ name @ '' '' @ options))
      | Some received_options \<Rightarrow> func pymux received_options)"

text \<open>
  \<open>select_layout\<close>. \<open>layout_types_all\<close> is \<open>LayoutTypes._ALL\<close> and
  \<open>window_select_layout\<close> is \<open>get_active_window(cli).select_layout\<close>, both of the
  arrangement module, which is not among the sources.
\<close>

definition select_layout ::
  "string list \<Rightarrow> (string \<Rightarrow> 'a \<Rightarrow> py_error + 'a) \<Rightarrow> 'a Pymux \<Rightarrow> variables \<Rightarrow> exn + 'a Pymux"
  where
  "select_layout layout_types_all window_select_layout pymux variables =
     (case variables ''<layout-type>'' of
        None \<Rightarrow> Inl (Error KeyError)
      | Some layout_type \<Rightarrow>
          if layout_type \<in> set layout_types_all then
            (case window_select_layout layout_type (arrangement pymux) of
               Inl e \<Rightarrow> Inl (Error e)
             | Inr a \<Rightarrow> Inr (pymux\<lparr>arrangement := a\<rparr>))
          else Inl (CommandException ''Invalid layout type.''))"

text \<open>The usage text that the wrapper of \<open>select-layout\<close> hands to \<open>docopt\<close>.\<close>

definition usage_select_layout :: string where
  "usage_select_layout = ''Usage:'' @ [CHR 0x0A] @ ''    select-layout <layout-type>''"

section \<open>Concrete inputs\<close>

text \<open>
  A running process with its pty master open, whose program switched on bracketed paste
  and the legacy mouse protocol only.
\<close>

definition demo_process :: Process where
  "demo_process =
     \<lparr>master = Some 5, pid = Some 42, is_terminated = False,
      screen = \<lparr>bracketed_paste_enabled = True, sgr_mouse_support_enabled = False,
                urxvt_mouse_support_enabled = False, mouse_support_enabled = True\<rparr>\<rparr>"

text \<open>An \<open>os.write\<close> that is interrupted twice and then succeeds.\<close>

definition demo_env :: write_env where
  "demo_env i = (if i < 2 then WriteError 4 else Written 8)"

text \<open>
  A window with one pane, and write positions recorded while a second pane was still
  beside it.
\<close>

definition demo_window :: "nat Window" where
  "demo_window = \<lparr>root = HSplit [Pane 1], active_pane = 1, zoom = False\<rparr>"

definition stale_positions :: "nat pane_write_positions" where
  "stale_positions =
     [(1, \<lparr>xpos = 0, ypos = 0, width = 40, height = 24\<rparr>),
      (2, \<lparr>xpos = 41, ypos = 0, width = 39, height = 24\<rparr>)]"

text \<open>
  A dispatcher that knows \<open>select-layout\<close>, with a \<open>docopt\<close> that accepts exactly one
  parameter, three layout types, and an arrangement that is the name of its layout.
\<close>

definition demo_docopt :: docopt where
  "demo_docopt usage parameters =
     (case parameters of [a] \<Rightarrow> Some [''<layout-type>'' \<mapsto> a] | _ \<Rightarrow> None)"

definition demo_layouts :: "string list" where
  "demo_layouts = [''even-horizontal'', ''even-vertical'', ''tiled'']"

definition demo_commands :: "string \<rightharpoonup> string handler" where
  "demo_commands =
     [''select-layout'' \<mapsto>
        command_wrapper demo_docopt ''select-layout'' ''<layout-type>''
          (select_layout demo_layouts (\<lambda>layout_type a. Inr layout_type))]"

text \<open>A file system on which no path exists.\<close>

definition empty_filesystem :: filesystem where
  "empty_filesystem path = \<lparr>path_exists = False, access_x_ok = False, execv_errno = None\<rparr>"

section \<open>Properties of the receive loop\<close>

lemma index_nul_append: "0 \<notin> set p \<Longrightarrow> index_nul (p @ 0 # rest) = length p"
  by (induction p) (auto simp: index_nul_def)

lemma drain_frame:
  assumes "0 \<notin> set p"
  shows "drain h c (p @ 0 # rest) =
         (case h c p of Inl e \<Rightarrow> Inl e | Inr c' \<Rightarrow> drain h c' rest)"
  using assms by (subst drain.simps) (simp add: index_nul_append cong: sum.case_cong)

lemma drain_no_nul: "0 \<notin> set buf \<Longrightarrow> drain h c buf = Inr (c, buf)"
  by (subst drain.simps) simp

lemma drain_append:
  "drain h c (buf @ d) =
   (case drain h c buf of Inl e \<Rightarrow> Inl e | Inr (c', buf') \<Rightarrow> drain h c' (buf' @ d))"
proof (induction h c buf rule: drain.induct)
  case (1 h c buf)
  show ?case
  proof (cases "0 \<in> set buf")
    case False
    then show ?thesis by (simp add: drain_no_nul)
  next
    case True
    then obtain p rest where buf: "buf = p @ 0 # rest" and p: "0 \<notin> set p"
      by (meson split_list_first)
    have pos: "index_nul buf = length p" using buf p by (simp add: index_nul_append)
    show ?thesis
    proof (cases "h c p")
      case (Inl e)
      then show ?thesis using p by (simp add: buf drain_frame[of p h c, simplified] drain_frame)
    next
      case (Inr c')
      have "drain h c' (drop (index_nul buf + 1) buf @ d) =
            (case drain h c' (drop (index_nul buf + 1) buf) of Inl e \<Rightarrow> Inl e
             | Inr (c'', buf') \<Rightarrow> drain h c'' (buf' @ d))"
        using "1.IH"[OF True refl, of c'] Inr pos buf by simp
      then show ?thesis using p Inr pos
        by (simp add: buf drain_frame drain_frame[of p h c "rest @ d", simplified])
    qed
  qed
qed

lemma drain_rest_no_nul: "drain h c buf = Inr (c', buf') \<Longrightarrow> 0 \<notin> set buf'"
proof (induction h c buf rule: drain.induct)
  case (1 h c buf)
  show ?case
  proof (cases "0 \<in> set buf")
    case False
    then show ?thesis using "1.prems" by (simp add: drain_no_nul)
  next
    case True
    then show ?thesis using "1.prems" "1.IH"[OF True refl]
      by (subst (asm) drain.simps) (auto simp: Let_def split: sum.splits)
  qed
qed

lemma recv_loop_drain:
  "[] \<notin> set ds \<Longrightarrow> 0 \<notin> set buf \<Longrightarrow>
   recv_loop h c buf ds =
   (case drain h c (buf @ concat ds) of Inl e \<Rightarrow> Inl e | Inr (c', r) \<Rightarrow> Inr (Waiting c' r))"
proof (induction ds arbitrary: c buf)
  case Nil
  then show ?case by (simp add: drain_no_nul)
next
  case (Cons d ds)
  then show ?case
    by (auto simp add: drain_append[of h c "buf @ d" "concat ds", simplified] 
         dest: drain_rest_no_nul split: sum.splits prod.splits)
qed

lemma drain_frames:
  "\<forall>p\<in>set ps. 0 \<notin> set p \<Longrightarrow>
   drain h c (concat (map send_packet ps)) =
   (case deliver h c ps of Inl e \<Rightarrow> Inl e | Inr c' \<Rightarrow> Inr (c', []))"
proof (induction ps arbitrary: c)
  case Nil
  then show ?case by (simp add: drain_no_nul)
next
  case (Cons p ps)
  then show ?case
    by (simp add: send_packet_def drain_frame split: sum.splits)
qed

text \<open>
  C3. Packets whose bodies hold no NUL byte are sent one after the other, each followed
  by a NUL. However the byte stream is cut into non-empty reads, the receive loop hands
  the packet handler the same bodies in the same order as if each packet had been
  delivered on its own, stops where the handler raises, and ends with an empty buffer:
  the NUL alone marks where a packet ends.
\<close>

theorem attach_framing:
  assumes "\<forall>p\<in>set ps. 0 \<notin> set p" and "[] \<notin> set ds"
    and "concat ds = concat (map send_packet ps)"
  shows "recv_loop h c [] ds =
         (case deliver h c ps of Inl e \<Rightarrow> Inl e | Inr c' \<Rightarrow> Inr (Waiting c' []))"
  using assms by (simp add: recv_loop_drain drain_frames split: sum.splits)

theorem attach_framing_witness:
  "0 \<notin> set [1, 2 :: byte] \<and> 0 \<notin> set [3 :: byte] \<and> [] \<notin> set [[1], [2, 0, 3], [0 :: byte]]
   \<and> concat [[1], [2, 0, 3], [0 :: byte]] = concat (map send_packet [[1, 2], [3]])
   \<and> recv_loop (\<lambda>tr p. Inr (tr @ [p]) :: unit + byte list list) [] [] [[1], [2, 0, 3], [0]]
       = Inr (Waiting [[1, 2], [3]] [])"
proof -
  have a: "\<forall>p\<in>set [[1, 2], [3 :: byte]]. 0 \<notin> set p" by simp
  have b: "[] \<notin> set [[1], [2, 0, 3], [0 :: byte]]" by simp
  have c: "concat [[1], [2, 0, 3], [0 :: byte]] = concat (map send_packet [[1, 2], [3]])"
    by (simp add: send_packet_def)
  show ?thesis
    using a b c attach_framing [OF a b c, of "\<lambda>tr p. Inr (tr @ [p]) :: unit + byte list list" "[]"]
    by simp
qed

section \<open>Properties of the packet handler\<close>

text \<open>
  C6. A \<open>mode\<close> packet with data \<open>raw\<close> or \<open>cooked\<close> switches the terminal to that
  mode and pushes a context that remembers the mode before it onto the stack; a \<open>mode\<close>
  packet with data \<open>restore\<close> removes the context pushed last, leaves the contexts
  below it in place and puts the terminal back into the mode that context remembers.
\<close>

theorem mode_stack_lifo:
  "process_packet c (mode_packet ''raw'') =
     Inr (c\<lparr>mode_context_managers :=
               mode_context_managers c @ [\<lparr>cm_mode = Raw, attrs_before = tty c\<rparr>],
            tty := Raw\<rparr>)
   \<and> process_packet c (mode_packet ''cooked'') =
     Inr (c\<lparr>mode_context_managers :=
               mode_context_managers c @ [\<lparr>cm_mode = Cooked, attrs_before = tty c\<rparr>],
            tty := Cooked\<rparr>)
   \<and> process_packet (c\<lparr>mode_context_managers := stack @ [cm]\<rparr>) (mode_packet ''restore'') =
     Inr (c\<lparr>mode_context_managers := stack, tty := attrs_before cm\<rparr>)
   \<and> deliver process_packet c
       [mode_packet ''raw'', mode_packet ''cooked'', mode_packet ''restore'']
     = process_packet c (mode_packet ''raw'')
   \<and> deliver process_packet c
       [mode_packet ''raw'', mode_packet ''cooked'', mode_packet ''restore'',
        mode_packet ''restore'']
     = Inr c"
  by (simp add: process_packet_def mode_packet_def subscript_def process_mode_def cm_enter_def
      cm_exit_def butlast_append)

text \<open>
  C9. A \<open>mode\<close> packet with data \<open>restore\<close> that arrives while the stack of contexts
  is empty changes nothing and raises nothing: the client is as before and the stack is
  still empty.
\<close>

theorem restore_on_empty_stack:
  "process_packet (c\<lparr>mode_context_managers := []\<rparr>) (mode_packet ''restore'')
     = Inr (c\<lparr>mode_context_managers := []\<rparr>)"
  by (simp add: process_packet_def mode_packet_def subscript_def process_mode_def)

section \<open>Properties of the process\<close>

lemma write_loop_closed: "master p = None \<Longrightarrow> write_loop p data env i acc = Some (acc, None)"
  by (subst write_loop.simps) simp

lemma write_loop_retry:
  assumes "master p = Some fd" and "encode_utf8 data = Some bs"
  shows "\<forall>j<k. env (i + j) = WriteError 4 \<Longrightarrow> env (i + k) \<noteq> WriteError 4 \<Longrightarrow>
         write_loop p data env i acc = Some (acc @ replicate (Suc k) (OsWrite fd bs), None)"
proof (induction k arbitrary: i acc)
  case 0
  then show ?case using assms
    by (subst write_loop.simps) (auto split: write_outcome.splits)
next
  case (Suc k)
  have first: "env i = WriteError 4" using Suc.prems(1) by force
  have "\<forall>j<k. env (Suc i + j) = WriteError 4" using Suc.prems(1) by force
  moreover have "env (Suc i + k) \<noteq> WriteError 4" using Suc.prems(2) by simp
  ultimately have "write_loop p data env (Suc i) (acc @ [OsWrite fd bs])
      = Some ((acc @ [OsWrite fd bs]) @ replicate (Suc k) (OsWrite fd bs), None)"
    by (rule Suc.IH)
  then show ?case using assms first
    by (subst write_loop.simps) (simp add: replicate_app_Cons_same)
qed

lemma encode_utf8_append:
  "encode_utf8 (a @ b) =
     (case encode_utf8 a of None \<Rightarrow> None
      | Some x \<Rightarrow> (case encode_utf8 b of None \<Rightarrow> None | Some y \<Rightarrow> Some (x @ y)))"
  by (induction a) (auto split: option.splits)

lemma encode_paste_start: "encode_utf8 paste_start = Some [0x1b, 0x5b, 0x32, 0x30, 0x30, 0x7e]"
  by (simp add: paste_start_def utf8_char_def)

lemma encode_paste_end: "encode_utf8 paste_end = Some [0x1b, 0x5b, 0x32, 0x30, 0x31, 0x7e]"
  by (simp add: paste_end_def utf8_char_def)

text \<open>
  C4. With the pty master open and a payload that has a UTF-8 encoding, every
  \<open>os.write\<close> of \<open>write_input\<close> carries the same bytes: the payload between the bytes
  of the markers \<open>ESC [ 2 0 0 ~\<close> and \<open>ESC [ 2 0 1 ~\<close> when \<open>paste\<close> is set and the
  screen has bracketed paste enabled, and the payload alone otherwise. A write that fails
  with errno 4 is made again: after \<open>k\<close> interrupted writes and one that is not
  interrupted, \<open>write_input\<close> has made \<open>k + 1\<close> writes and returns without an exception.
\<close>

theorem write_input_paste_and_retry:
  assumes "master p = Some fd" and "encode_utf8 data = Some bs"
    and "\<forall>j<k. env j = WriteError 4" and "env k \<noteq> WriteError 4"
  shows "write_input p data paste env =
         Some (replicate (Suc k)
                 (OsWrite fd (if paste \<and> bracketed_paste_enabled (screen p)
                              then [0x1b, 0x5b, 0x32, 0x30, 0x30, 0x7e] @ bs
                                   @ [0x1b, 0x5b, 0x32, 0x30, 0x31, 0x7e]
                              else bs)),
               None)"
proof (cases "paste \<and> bracketed_paste_enabled (screen p)")
  case True
  have "encode_utf8 (paste_start @ data @ paste_end)
        = Some ([0x1b, 0x5b, 0x32, 0x30, 0x30, 0x7e] @ bs @ [0x1b, 0x5b, 0x32, 0x30, 0x31, 0x7e])"
    using assms(2) by (simp add: encode_utf8_append encode_paste_start encode_paste_end)
  from write_loop_retry [OF assms(1) this, of k env 0 "[]"] assms(3,4) True
  show ?thesis by (simp add: write_input_def)
next
  case False
  from write_loop_retry [OF assms(1,2), of k env 0 "[]"] assms(3,4) False
  show ?thesis by (auto simp add: write_input_def)
qed

theorem write_input_paste_and_retry_witness:
  "write_input demo_process [0x68, 0x69] True demo_env =
     Some (replicate 3 (OsWrite 5 [0x1b, 0x5b, 0x32, 0x30, 0x30, 0x7e, 0x68, 0x69,
                                  0x1b, 0x5b, 0x32, 0x30, 0x31, 0x7e]), None)
   \<and> write_input demo_process [0x68, 0x69] False demo_env =
     Some (replicate 3 (OsWrite 5 [0x68, 0x69]), None)"
proof -
  have m: "master demo_process = Some 5" by (simp add: demo_process_def)
  have e: "encode_utf8 [0x68, 0x69] = Some [0x68, 0x69]" by (simp add: utf8_char_def)
  have r: "\<forall>j<2. demo_env j = WriteError 4" by (simp add: demo_env_def)
  have s: "demo_env 2 \<noteq> WriteError 4" by (simp add: demo_env_def)
  show ?thesis
    using write_input_paste_and_retry [OF m e r s, of True]
      write_input_paste_and_retry [OF m e r s, of False]
    by (simp add: demo_process_def numeral_3_eq_3)
qed

text \<open>
  C5. The callback of \<open>_waitpid\<close> leaves the master field \<open>None\<close>, and on every
  process whose master field is \<open>None\<close> \<open>write_input\<close> makes no call of the operating
  system and returns without an exception, whatever the payload, the paste flag and the
  environment.
\<close>

theorem no_write_after_close:
  "master (fst (waitpid_done p)) = None
   \<and> (master q = None \<longrightarrow> write_input q data paste env = Some ([], None))"
  by (cases "master p") (simp_all add: waitpid_done_def write_input_def write_loop_closed Let_def)

theorem no_write_after_close_witness:
  "waitpid_done demo_process
     = (demo_process\<lparr>master := None, is_terminated := True\<rparr>,
        ([OsClose 5, RemoveReader 5], None))
   \<and> write_input (fst (waitpid_done demo_process)) [0x68, 0x69] True demo_env = Some ([], None)"
proof -
  have closed: "master (fst (waitpid_done demo_process)) = None"
    by (simp add: waitpid_done_def demo_process_def)
  from closed no_write_after_close [of demo_process "fst (waitpid_done demo_process)"]
  have "write_input (fst (waitpid_done demo_process)) [0x68, 0x69] True demo_env
        = Some ([], None)"
    by blast
  then show ?thesis by (simp add: waitpid_done_def demo_process_def)
qed

text \<open>
  C8, as claimed, fails: for a running child with pid 42, \<open>send_signal\<close> calls
  \<open>os.kill(42, 15)\<close>, which signals the process 42 and not the process group 42.
\<close>

theorem send_signal_to_group_counterexample:
  "fst (send_signal demo_process 15 None) = [OsKill 42 15]
   \<and> signal_targets (fst (send_signal demo_process 15 None)) = [TargetProcess 42]
   \<and> TargetProcessGroup 42 \<notin> set (signal_targets (fst (send_signal demo_process 15 None)))"
  by (simp add: send_signal_def demo_process_def kill_target_def)

text \<open>
  C8, amended. For every signal: when the child was started and the process is not
  marked as terminated, \<open>send_signal\<close> makes the one call \<open>os.kill(pid, signal)\<close>, which
  signals the child process itself; when the child was never started or the process is
  marked as terminated, \<open>send_signal\<close> makes no call and raises nothing.
\<close>

theorem send_signal_guard:
  "(pid p = Some child \<and> 0 < child \<and> \<not> is_terminated p \<longrightarrow>
      fst (send_signal p signal kill_error) = [OsKill child signal]
      \<and> signal_targets (fst (send_signal p signal kill_error)) = [TargetProcess child])
   \<and> (pid p = None \<or> is_terminated p \<longrightarrow> send_signal p signal kill_error = ([], None))"
  by (auto simp add: send_signal_def kill_target_def split: option.splits)

theorem send_signal_guard_witness:
  "fst (send_signal demo_process 9 None) = [OsKill 42 9]
   \<and> signal_targets (fst (send_signal demo_process 9 None)) = [TargetProcess 42]
   \<and> send_signal (demo_process\<lparr>is_terminated := True\<rparr>) 9 None = ([], None)
   \<and> send_signal (demo_process\<lparr>pid := None\<rparr>) 9 None = ([], None)"
proof -
  have live: "pid demo_process = Some 42 \<and> (0 :: int) < 42 \<and> \<not> is_terminated demo_process"
    by (simp add: demo_process_def)
  have dead: "pid (demo_process\<lparr>is_terminated := True\<rparr>) = None
              \<or> is_terminated (demo_process\<lparr>is_terminated := True\<rparr>)"
    by simp
  have unborn: "pid (demo_process\<lparr>pid := None\<rparr>) = None
                \<or> is_terminated (demo_process\<lparr>pid := None\<rparr>)"
    by simp
  from live send_signal_guard [of demo_process 42 9 None]
  have a: "fst (send_signal demo_process 9 None) = [OsKill 42 9]
           \<and> signal_targets (fst (send_signal demo_process 9 None)) = [TargetProcess 42]"
    by blast
  from dead send_signal_guard [of "demo_process\<lparr>is_terminated := True\<rparr>" 42 9 None]
  have b: "send_signal (demo_process\<lparr>is_terminated := True\<rparr>) 9 None = ([], None)"
    by blast
  from unborn send_signal_guard [of "demo_process\<lparr>pid := None\<rparr>" 42 9 None]
  have c: "send_signal (demo_process\<lparr>pid := None\<rparr>) 9 None = ([], None)"
    by blast
  from a b c show ?thesis by blast
qed

subsection \<open>The exit status of the child\<close>

lemma execv_search_not_found:
  "command \<noteq> [] \<Longrightarrow>
   \<forall>p \<in> set ps. \<not> (path_exists (fs (path_join p (hd command)))
                     \<and> access_x_ok (fs (path_join p (hd command)))) \<Longrightarrow>
   execv_search fs command ps = Returned"
  by (induction ps) (auto split: list.splits)

lemma execv_not_found_exit_status:
  assumes "environ ''PATH'' = Some path_var" and "command \<noteq> []"
    and "\<forall>p \<in> set (split_colon path_var).
           \<not> (path_exists (fs (path_join p (hd command)))
              \<and> access_x_ok (fs (path_join p (hd command))))"
  shows "in_child (execv None environ fs command) = Exited 0"
  using assms by (simp add: in_child_def execv_def execv_search_not_found)

text \<open>
  C2. The claim is that a command whose executable is on no entry of \<open>PATH\<close> ends the
  child with a status other than 0. In the code the search loop of \<open>execv\<close> ends without
  an exception, and \<open>_in_child\<close> goes on to \<open>os._exit(0)\<close>: the child exits with
  status 0.
\<close>

theorem child_exit_status_command_not_found:
  "in_child (execv None [''PATH'' \<mapsto> ''/usr/bin:/bin''] empty_filesystem [''nosuchprogram''])
   = Exited 0"
  by (simp add: in_child_def execv_def empty_filesystem_def)

section \<open>Properties of the layout\<close>

lemma look_for_pane_cases:
  "(\<exists>pane b. (pane, b) \<in> set ps \<and> contains_point b x y
       \<and> look_for_pane ps x y w = w\<lparr>active_pane := pane\<rparr>)
   \<or> ((\<forall>(pane, b) \<in> set ps. \<not> contains_point b x y) \<and> look_for_pane ps x y w = w)"
proof (induction ps)
  case Nil
  then show ?case by simp
next
  case (Cons a ps)
  obtain pane b where a: "a = (pane, b)" by (cases a)
  show ?case
  proof (cases "contains_point b x y")
    case True
    then show ?thesis using a by auto
  next
    case False
    then show ?thesis using a Cons.IH by auto
  qed
qed

lemma focus_missing_entry:
  "map_of positions (active_pane w) = None \<Longrightarrow> focus d positions w = Inl KeyError"
  by (cases d) (simp_all add: focus_left_def focus_right_def focus_up_def focus_down_def
      move_focus_def)

text \<open>
  C1. The claim is that moving the focus never raises, whatever the recorded write
  positions are. In the code \<open>_move_focus\<close> subscripts the recorded write positions
  with the active pane before it looks for a pane: with no write positions recorded, the
  subscript raises \<open>KeyError\<close> in each of the four directions instead of leaving
  the focus unchanged.
\<close>

theorem focus_without_entry_raises:
  "focus L [] demo_window = Inl KeyError
   \<and> focus R [] demo_window = Inl KeyError
   \<and> focus U [] demo_window = Inl KeyError
   \<and> focus D [] demo_window = Inl KeyError"
  by (simp add: focus_left_def focus_right_def focus_up_def focus_down_def move_focus_def)

text \<open>
  Where the active pane has an entry, moving the focus returns: either the active pane
  becomes a pane of the recorded write positions whose box holds the probe point just
  outside the edge of the active pane in that direction, or no recorded box holds the
  probe point and the window is unchanged.
\<close>

lemma focus_on_rendered_pane:
  assumes "map_of positions (active_pane w) = Some wp" and "probe d wp = (x, y)"
  shows "(\<exists>pane b. (pane, b) \<in> set positions \<and> contains_point b x y
             \<and> focus d positions w = Inr (w\<lparr>active_pane := pane\<rparr>))
         \<or> ((\<forall>(pane, b) \<in> set positions. \<not> contains_point b x y)
             \<and> focus d positions w = Inr w)"
proof -
  have "focus d positions w = Inr (look_for_pane positions x y w)"
    using assms
    by (cases d) (auto simp: focus_left_def focus_right_def focus_up_def focus_down_def
        move_focus_def)
  then show ?thesis using look_for_pane_cases [of positions x y w] by auto
qed

text \<open>
  The pane is looked for among the recorded write positions, not in the tree of the
  window: with write positions recorded before pane 2 left the window, moving the focus
  to the right makes pane 2 the active pane of a window that does not hold it.
\<close>

lemma focus_stale_positions:
  "focus R stale_positions demo_window = Inr (demo_window\<lparr>active_pane := 2\<rparr>)
   \<and> 2 \<notin> set (panes_of (root demo_window))"
  by (simp add: focus_right_def move_focus_def demo_window_def stale_positions_def
      contains_point_def)

lemma focus_on_rendered_pane_example:
  "map_of stale_positions (active_pane demo_window)
     = Some \<lparr>xpos = 0, ypos = 0, width = 40, height = 24\<rparr>
   \<and> probe R \<lparr>xpos = 0, ypos = 0, width = 40, height = 24\<rparr> = (41, 0)
   \<and> focus R stale_positions demo_window = Inr (demo_window\<lparr>active_pane := 2\<rparr>)
   \<and> focus U stale_positions demo_window = Inr demo_window"
proof -
  have a: "map_of stale_positions (active_pane demo_window)
           = Some \<lparr>xpos = 0, ypos = 0, width = 40, height = 24\<rparr>"
    by (simp add: stale_positions_def demo_window_def)
  have b: "probe R \<lparr>xpos = 0, ypos = 0, width = 40, height = 24\<rparr> = (41, 0)" by simp
  have c: "probe U \<lparr>xpos = 0, ypos = 0, width = 40, height = 24\<rparr> = (0, - 1)" by simp
  from focus_on_rendered_pane [OF a b] focus_on_rendered_pane [OF a c] a b
  show ?thesis
    by (auto simp add: stale_positions_def demo_window_def contains_point_def)
qed

subsection \<open>Mouse events\<close>

lemma legacy_mouse_dropped:
  assumes "has_focus current_buffer_name w pane"
    and "\<not> sgr_mouse_support_enabled (screen proc)"
    and "\<not> urxvt_mouse_support_enabled (screen proc)"
    and "96 \<le> position_x ev \<or> 96 \<le> position_y ev"
  shows "mouse_handler current_buffer_name w pane proc ev env = (w, Some ([], None))"
  using assms by (auto simp: mouse_handler_def Let_def)

lemma utf8_char_ascii: "0 \<le> i \<Longrightarrow> i < 128 \<Longrightarrow> utf8_char (nat i) = Some [of_int i]"
  by (simp add: utf8_char_def)

lemma legacy_event_ascii: "0 \<le> legacy_event t \<and> legacy_event t < 128"
  by (cases t) simp_all

lemma legacy_mouse_forwarded:
  assumes "has_focus current_buffer_name w pane"
    and "\<not> sgr_mouse_support_enabled (screen proc)"
    and "\<not> urxvt_mouse_support_enabled (screen proc)"
    and "mouse_support_enabled (screen proc)"
    and "0 \<le> position_x ev" and "position_x ev < 95"
    and "0 \<le> position_y ev" and "position_y ev < 95"
    and "master proc = Some fd" and "env 0 = Written n"
  shows "mouse_handler current_buffer_name w pane proc ev env =
         (w, Some ([OsWrite fd [0x1b, 0x5b, 0x4d, of_int (legacy_event (event_type ev)),
                                of_int (position_x ev + 33), of_int (position_y ev + 33)]],
                   None))"
proof -
  let ?report = "[0x1b, 0x5b, 0x4d, nat (legacy_event (event_type ev)),
                  nat (position_x ev + 33), nat (position_y ev + 33)]"
  let ?bytes = "[0x1b, 0x5b, 0x4d, of_int (legacy_event (event_type ev)),
                 of_int (position_x ev + 33), of_int (position_y ev + 33)] :: byte list"
  have e: "utf8_char (nat (legacy_event (event_type ev)))
           = Some [of_int (legacy_event (event_type ev))]"
    using legacy_event_ascii [of "event_type ev"] by (simp add: utf8_char_ascii)
  have x: "utf8_char (nat (position_x ev + 33)) = Some [of_int (position_x ev + 33)]"
    using assms(5,6) by (simp add: utf8_char_ascii)
  have y: "utf8_char (nat (position_y ev + 33)) = Some [of_int (position_y ev + 33)]"
    using assms(7,8) by (simp add: utf8_char_ascii)
  have r: "legacy_report (event_type ev) (position_x ev) (position_y ev) = Inr ?report"
    using assms(5-8) legacy_event_ascii [of "event_type ev"]
    by (simp add: legacy_report_def unichr_def)
  have "utf8_char 0x1b = Some [0x1b]" "utf8_char 0x5b = Some [0x5b]"
       "utf8_char 0x4d = Some [0x4d]"
    by (simp_all add: utf8_char_def)
  then have enc: "encode_utf8 ?report = Some ?bytes"
    using e x y by simp
  have "env (0 + 0) \<noteq> WriteError 4" using assms(10) by simp
  then have "write_loop proc ?report env 0 [] = Some ([] @ replicate (Suc 0) (OsWrite fd ?bytes), None)"
    by (intro write_loop_retry [OF assms(9) enc]) simp_all
  then have w: "write_input proc ?report False env = Some ([OsWrite fd ?bytes], None)"
    by (simp add: write_input_def)
  show ?thesis
    using assms(1-8) r w by (simp add: mouse_handler_def Let_def)
qed

lemma mouse_protocol_precedence:
  assumes "has_focus current_buffer_name w pane"
  shows "sgr_mouse_support_enabled (screen proc) \<Longrightarrow>
           mouse_handler current_buffer_name w pane proc ev env =
           (w, write_input proc (sgr_report (event_type ev) (position_x ev) (position_y ev)) False env)"
    and "\<not> sgr_mouse_support_enabled (screen proc) \<Longrightarrow> urxvt_mouse_support_enabled (screen proc) \<Longrightarrow>
           mouse_handler current_buffer_name w pane proc ev env =
           (w, write_input proc (urxvt_report (event_type ev) (position_x ev) (position_y ev)) False env)"
  using assms by (simp_all add: mouse_handler_def Let_def)

text \<open>
  C10. The claim is that a legacy report for a column and a row below 96 is the three
  bytes \<open>ESC [ M\<close>, the event byte and one byte for each coordinate. In the code the
  report is text that \<open>write_input\<close> encodes as UTF-8: at column 95 the character of
  the column is U+0080, which is written as the two bytes C2 80.
\<close>

theorem legacy_mouse_column_95:
  "mouse_handler ''DEFAULT'' demo_window 1 demo_process
     \<lparr>position_x = 95, position_y = 0, event_type = MOUSE_DOWN\<rparr> (\<lambda>i. Written 7)
   = (demo_window, Some ([OsWrite 5 [0x1b, 0x5b, 0x4d, 0x20, 0xc2, 0x80, 0x21]], None))"
  by (simp add: mouse_handler_def has_focus_def demo_window_def demo_process_def
      legacy_report_def unichr_def write_input_def write_loop.simps utf8_char_def)

section \<open>Properties of the command dispatcher\<close>

lemma select_layout_usage_error:
  assumes "commands_to_handlers ''select-layout'' =
             Some (command_wrapper docopt ''select-layout'' ''<layout-type>''
                     (select_layout layout_types_all window_select_layout))"
    and "docopt usage_select_layout parameters = None"
  shows "call_command_handler commands_to_handlers ''select-layout'' pymux parameters =
         Inr (pymux\<lparr>messages := messages pymux @ [''Usage: select-layout <layout-type>'']\<rparr>)"
  using assms
  by (simp add: call_command_handler_def command_wrapper_def 
      show_message_def usage_select_layout_def)

text \<open>
  C7. When the dispatcher holds the wrapped \<open>select_layout\<close> under \<open>select-layout\<close> and
  the parameters name a layout type that is not among the known ones, the call returns
  without an exception, and the only change is the message \<open>Invalid layout type.\<close>
  added to the messages shown: the arrangement is as before.
\<close>

theorem select_layout_invalid_name:
  assumes "commands_to_handlers ''select-layout'' =
             Some (command_wrapper docopt ''select-layout'' ''<layout-type>''
                     (select_layout layout_types_all window_select_layout))"
    and "docopt usage_select_layout parameters = Some variables"
    and "variables ''<layout-type>'' = Some layout_type"
    and "layout_type \<notin> set layout_types_all"
  shows "call_command_handler commands_to_handlers ''select-layout'' pymux parameters =
         Inr (pymux\<lparr>messages := messages pymux @ [''Invalid layout type.'']\<rparr>)"
  using assms
  by (simp add: call_command_handler_def command_wrapper_def select_layout_def
      show_message_def usage_select_layout_def)

theorem select_layout_invalid_name_witness:
  "call_command_handler demo_commands ''select-layout''
     \<lparr>arrangement = ''tiled'', messages = []\<rparr> [''spiral'']
   = Inr \<lparr>arrangement = ''tiled'', messages = [''Invalid layout type.'']\<rparr>"
proof -
  have a: "demo_commands ''select-layout'' =
           Some (command_wrapper demo_docopt ''select-layout'' ''<layout-type>''
                   (select_layout demo_layouts (\<lambda>layout_type a. Inr layout_type)))"
    by (simp add: demo_commands_def)
  have b: "demo_docopt usage_select_layout [''spiral''] = Some [''<layout-type>'' \<mapsto> ''spiral'']"
    by (simp add: demo_docopt_def)
  have c: "[''<layout-type>'' \<mapsto> ''spiral''] ''<layout-type>'' = Some ''spiral''" by simp
  have d: "''spiral'' \<notin> set demo_layouts" by (simp add: demo_layouts_def)
  from select_layout_invalid_name
         [where commands_to_handlers = demo_commands and docopt = demo_docopt
            and layout_types_all = demo_layouts
            and window_select_layout = "\<lambda>layout_type a. Inr layout_type"
            and parameters = "[''spiral'']"
            and variables = "[''<layout-type>'' \<mapsto> ''spiral'']"
            and layout_type = "''spiral''"
            and pymux = "\<lparr>arrangement = ''tiled'', messages = []\<rparr>", OF a b c d]
  show ?thesis by simp
qed

end
